theory Spec2Isabelle
  imports Main
begin

section \<open>Exceptions\<close>

text \<open>
  The exception classes that \<^verbatim>\<open>example.py\<close> raises or tells apart. The two handlers of
  \<^verbatim>\<open>run_transaction\<close> test \<^verbatim>\<open>isinstance(e, SerializationError)\<close> and then
  \<^verbatim>\<open>isinstance(e, Exception)\<close>; \<open>NonException\<close> stands for the classes that derive from
  \<^verbatim>\<open>BaseException\<close> only (\<^verbatim>\<open>KeyboardInterrupt\<close>, \<^verbatim>\<open>CancelledError\<close>), which neither
  handler catches. The string is the message.
\<close>

datatype exn =
    SerializationError string
  | ValueError string
  | RuntimeError string
  | TypeError string
  | OtherException string
  | NonException string

fun is_SerializationError :: "exn \<Rightarrow> bool" where
  "is_SerializationError (SerializationError _) = True"
| "is_SerializationError _ = False"

fun is_Exception :: "exn \<Rightarrow> bool" where
  "is_Exception (NonException _) = False"
| "is_Exception _ = True"

section \<open>Printing integers\<close>

text \<open>\<^verbatim>\<open>str(n)\<close> for a Python int, as the f-strings of the source format it.\<close>

definition digit_char :: "nat \<Rightarrow> char" where
  "digit_char d = ''0123456789'' ! d"

function digits :: "nat \<Rightarrow> string" where
  "digits n = (if n < 10 then [digit_char n] else digits (n div 10) @ [digit_char (n mod 10)])"
  by pat_completeness auto
termination
  by (relation "measure id") auto

declare digits.simps [simp del]

definition str_int :: "int \<Rightarrow> string" where
  "str_int i = (if i < 0 then CHR ''-'' # digits (nat (- i)) else digits (nat i))"

section \<open>The session, the unit of work and the events of a run\<close>

text \<open>
  \<^verbatim>\<open>conn\<close> is a parameter of \<^verbatim>\<open>run_transaction\<close>: its state is a value of an arbitrary
  type \<open>'s\<close>, and each call the runner makes on it is a state transformer of the record
  below. \<open>tx_enter\<close> is the entry of \<^verbatim>\<open>async with conn.transaction()\<close>, \<open>tx_commit\<close> its
  exit without an exception, \<open>tx_abort\<close> its exit with one, and \<open>conn_rollback\<close> the call
  \<^verbatim>\<open>conn.rollback()\<close> of line 86. These calls are taken to return; so are
  \<^verbatim>\<open>logging.debug\<close>, \<^verbatim>\<open>random.random\<close> and \<^verbatim>\<open>time.sleep\<close>.
\<close>

record 's session =
  tx_enter :: "'s \<Rightarrow> 's"
  tx_commit :: "'s \<Rightarrow> 's"
  tx_abort :: "'s \<Rightarrow> 's"
  conn_rollback :: "'s \<Rightarrow> 's"

text \<open>
  \<^verbatim>\<open>op\<close> is an opaque callable. \<open>op j c\<close> is its \<open>j\<close>-th invocation \<^verbatim>\<open>await op(conn)\<close> in a
  run, started on the session state \<open>c\<close>: \<open>None\<close> when it completes, \<open>Some e\<close> when it raises
  \<open>e\<close>, with the session state it leaves. The runner calls it once per iteration, so the
  invocation number is the loop variable \<^verbatim>\<open>retry\<close>.
\<close>

type_synonym 's unit_of_work = "int \<Rightarrow> 's \<Rightarrow> exn option \<times> 's"

text \<open>
  What a run does to its collaborators, in order. \<open>OpCall j r\<close> is the \<open>j\<close>-th invocation of
  the unit of work and how it ended. \<open>Rollback\<close> is the call \<^verbatim>\<open>conn.rollback()\<close>.
  \<open>Sleep r\<close> stands for lines 88 to 90 of iteration \<open>r\<close>: the delay
  \<^verbatim>\<open>sleep_seconds = (2**retry) * 0.1 * (random.random() + 0.5)\<close> and the call
  \<^verbatim>\<open>time.sleep(sleep_seconds)\<close>. The delay is double-precision arithmetic on a random
  draw and the wait is real time: neither is computed here, the event keeps the exponent
  \<^verbatim>\<open>retry\<close>, and the three lines are taken to return.
\<close>

datatype event =
    TxEnter
  | OpCall int "exn option"
  | Rollback
  | Sleep int
  | TxCommit
  | TxAbort

fun is_OpCall :: "event \<Rightarrow> bool" where
  "is_OpCall (OpCall _ _) = True"
| "is_OpCall _ = False"

fun is_Sleep :: "event \<Rightarrow> bool" where
  "is_Sleep (Sleep _) = True"
| "is_Sleep _ = False"

fun is_conflict :: "event \<Rightarrow> bool" where
  "is_conflict (OpCall _ (Some e)) = is_SerializationError e"
| "is_conflict _ = False"

text \<open>The attempt numbers of the invocations, in order.\<close>

fun attempts :: "event list \<Rightarrow> int list" where
  "attempts [] = []"
| "attempts (OpCall j r # evs) = j # attempts evs"
| "attempts (ev # evs) = attempts evs"

definition invocations :: "event list \<Rightarrow> nat" where
  "invocations evs = length (filter is_OpCall evs)"

definition sleeps :: "event list \<Rightarrow> nat" where
  "sleeps evs = length (filter is_Sleep evs)"

definition rollbacks :: "event list \<Rightarrow> nat" where
  "rollbacks evs = length (filter (\<lambda>ev. ev = Rollback) evs)"

definition conflicts :: "event list \<Rightarrow> nat" where
  "conflicts evs = length (filter is_conflict evs)"


section \<open>run_transaction\<close>

text \<open>How the \<^verbatim>\<open>for\<close> loop of lines 73 to 95 is left.\<close>

datatype loop_exit = Returned | Raised exn | Exhausted

text \<open>
  The loop over \<^verbatim>\<open>range(1, max_retries + 1)\<close>, given as the list of the values of
  \<^verbatim>\<open>retry\<close> still to come. It returns how the loop was left, the session state and the
  events in order.
\<close>

fun retry_loop ::
  "'s session \<Rightarrow> 's unit_of_work \<Rightarrow> int list \<Rightarrow> 's \<Rightarrow> loop_exit \<times> 's \<times> event list" where
  "retry_loop sess op [] c = (Exhausted, c, [])"
| "retry_loop sess op (retry # rest) c =
     (case op retry c of
        (None, c1) \<Rightarrow> (Returned, c1, [OpCall retry None])
      | (Some e, c1) \<Rightarrow>
          if is_SerializationError e then
            (case retry_loop sess op rest (conn_rollback sess c1) of
               (ex, c2, evs) \<Rightarrow> (ex, c2, OpCall retry (Some e) # Rollback # Sleep retry # evs))
          else if is_Exception e then (Raised e, c1, [OpCall retry (Some e)])
          else (Raised e, c1, [OpCall retry (Some e)]))"

definition exhausted :: "int \<Rightarrow> exn" where
  "exhausted max_retries =
     ValueError (''transaction did not succeed after '' @ str_int max_retries @ '' retries'')"

text \<open>
  The whole function: the result is \<open>Inr ()\<close> for \<^verbatim>\<open>return\<close> and \<open>Inl e\<close> for an
  exception that leaves the function; the transaction scope commits on the first and
  aborts on the second.
\<close>

definition run_transaction ::
  "'s session \<Rightarrow> 's unit_of_work \<Rightarrow> int \<Rightarrow> 's \<Rightarrow> (exn + unit) \<times> 's \<times> event list" where
  "run_transaction sess op max_retries c =
     (case retry_loop sess op [1..max_retries] (tx_enter sess c) of
        (Returned, c1, evs) \<Rightarrow> (Inr (), tx_commit sess c1, TxEnter # evs @ [TxCommit])
      | (Raised e, c1, evs) \<Rightarrow> (Inl e, tx_abort sess c1, TxEnter # evs @ [TxAbort])
      | (Exhausted, c1, evs) \<Rightarrow>
          (Inl (exhausted max_retries), tx_abort sess c1, TxEnter # evs @ [TxAbort]))"

definition outcome :: "(exn + unit) \<times> 's \<times> event list \<Rightarrow> exn + unit" where
  "outcome r = fst r"

definition events :: "(exn + unit) \<times> 's \<times> event list \<Rightarrow> event list" where
  "events r = snd (snd r)"

section \<open>transfer_funds\<close>

text \<open>
  The table \<^verbatim>\<open>accounts (id UUID PRIMARY KEY, balance INT)\<close> as one session sees it: a map
  from the id (a UUID in its text form) to the balance, \<open>None\<close> for SQL \<^verbatim>\<open>NULL\<close>, together
  with the statements the session has issued, in order. \<^verbatim>\<open>INT\<close> is a 64-bit integer: a
  parameter or a result out of that range is an error of the statement. Other sessions
  are not part of the model, so no statement raises a serialization error here.
\<close>

type_synonym uuid = string

datatype statement =
    Select_balance uuid
  | Update_minus int uuid
  | Update_plus int uuid

record conn =
  accounts :: "uuid \<rightharpoonup> int option"
  issued :: "statement list"

definition sql_int :: "int \<Rightarrow> bool" where
  "sql_int x \<longleftrightarrow> - (2 ^ 63) \<le> x \<and> x < 2 ^ 63"

text \<open>
  \<^verbatim>\<open>conn.fetchrow("SELECT balance FROM accounts WHERE id = $1", frm)\<close>: \<open>None\<close> when no
  row has that id, else the row, which holds the balance.
\<close>

definition fetchrow :: "uuid \<Rightarrow> conn \<Rightarrow> int option option \<times> conn" where
  "fetchrow k c = (accounts c k, c\<lparr>issued := issued c @ [Select_balance k]\<rparr>)"

text \<open>
  \<^verbatim>\<open>conn.execute("UPDATE accounts SET balance = balance - $1 WHERE id = $2", amount, k)\<close>
  and the same with \<^verbatim>\<open>+\<close>: no row, or a \<^verbatim>\<open>NULL\<close> balance, is left as it is.
\<close>

definition update_balance :: "statement \<Rightarrow> (int \<Rightarrow> int) \<Rightarrow> int \<Rightarrow> uuid \<Rightarrow> conn \<Rightarrow> exn option \<times> conn" where
  "update_balance stmt f amount k c =
     (let c1 = c\<lparr>issued := issued c @ [stmt]\<rparr> in
      if \<not> sql_int amount then (Some (OtherException ''value out of int64 range''), c1)
      else (case accounts c k of
              None \<Rightarrow> (None, c1)
            | Some None \<Rightarrow> (None, c1)
            | Some (Some b) \<Rightarrow>
                if sql_int (f b) then (None, c1\<lparr>accounts := (accounts c)(k \<mapsto> Some (f b))\<rparr>)
                else (Some (OtherException ''integer out of range''), c1)))"

fun execute :: "statement \<Rightarrow> conn \<Rightarrow> exn option \<times> conn" where
  "execute (Update_minus amount k) c = update_balance (Update_minus amount k) (\<lambda>b. b - amount) amount k c"
| "execute (Update_plus amount k) c = update_balance (Update_plus amount k) (\<lambda>b. b + amount) amount k c"
| "execute (Select_balance k) c = (None, c\<lparr>issued := issued c @ [Select_balance k]\<rparr>)"

text \<open>
  The message of line 47. \<^verbatim>\<open>{from_balance}\<close> prints the fetched row, not the balance
  alone.
\<close>

definition insufficient_funds :: "uuid \<Rightarrow> int \<Rightarrow> int \<Rightarrow> string" where
  "insufficient_funds frm b amount =
     ''insufficient funds in '' @ frm @ '': have <Record balance='' @ str_int b @ ''>, need ''
       @ str_int amount"

text \<open>
  \<^verbatim>\<open>from_balance['balance']\<close> raises \<^verbatim>\<open>TypeError\<close> when \<^verbatim>\<open>fetchrow\<close> found no row, and so
  does the comparison with \<^verbatim>\<open>amount\<close> when the balance is \<^verbatim>\<open>NULL\<close> (the messages are
  Python's, without their quotation marks).
\<close>

definition transfer_funds :: "conn \<Rightarrow> uuid \<Rightarrow> uuid \<Rightarrow> int \<Rightarrow> exn option \<times> conn" where
  "transfer_funds c frm to amount =
     (case fetchrow frm c of
        (None, c1) \<Rightarrow> (Some (TypeError ''NoneType object is not subscriptable''), c1)
      | (Some None, c1) \<Rightarrow>
          (Some (TypeError ''< not supported between instances of NoneType and int''), c1)
      | (Some (Some balance), c1) \<Rightarrow>
          if balance < amount then (Some (RuntimeError (insufficient_funds frm balance amount)), c1)
          else (case execute (Update_minus amount frm) c1 of
                  (Some e, c2) \<Rightarrow> (Some e, c2)
                | (None, c2) \<Rightarrow> execute (Update_plus amount to) c2))"

section \<open>Units of work and a session for the scenarios\<close>

text \<open>
  Test doubles for the end-to-end scenarios: a session whose calls leave the state as it
  is, a unit of work that always meets a conflict, one that meets a conflict until
  attempt \<open>k\<close> and then completes, and one that meets a conflict until attempt \<open>j\<close> and
  then raises \<open>e\<close>.
\<close>

definition null_session :: "unit session" where
  "null_session = \<lparr>tx_enter = id, tx_commit = id, tx_abort = id, conn_rollback = id\<rparr>"

definition conflict :: exn where
  "conflict = SerializationError ''restart transaction''"

definition always_conflict :: "unit unit_of_work" where
  "always_conflict j c = (Some conflict, c)"


definition conflict_then :: "int \<Rightarrow> exn \<Rightarrow> unit unit_of_work" where
  "conflict_then k e j c = (if j < k then Some conflict else Some e, c)"

text \<open>The accounts that \<^verbatim>\<open>create_accounts\<close> inserts, under two fixed ids.\<close>

definition demo_conn :: conn where
  "demo_conn = \<lparr>accounts = [''a1'' \<mapsto> Some 1000, ''a2'' \<mapsto> Some 250], issued = []\<rparr>"

section \<open>The retry loop\<close>

lemma retry_loop_Cons_cases:
  assumes "retry_loop sess op (r # rs) c = (ex, c', evs)"
  obtains
    (returned) "op r c = (None, c')" "ex = Returned" "evs = [OpCall r None]"
  | (conflict) e c1 evs' where "op r c = (Some e, c1)" "is_SerializationError e"
      "retry_loop sess op rs (conn_rollback sess c1) = (ex, c', evs')"
      "evs = OpCall r (Some e) # Rollback # Sleep r # evs'"
  | (fatal) e where "op r c = (Some e, c')" "\<not> is_SerializationError e" "ex = Raised e"
      "evs = [OpCall r (Some e)]"
  using assms by (auto split: prod.splits option.splits if_splits)

lemma segment_split:
  assumes "a # b # d # evs = pre @ x # post"
  shows "(pre = [] \<and> x = a \<and> post = b # d # evs) \<or> (pre = [a] \<and> x = b \<and> post = d # evs)
       \<or> (pre = [a, b] \<and> x = d \<and> post = evs)
       \<or> (\<exists>pre2. pre = a # b # d # pre2 \<and> evs = pre2 @ x # post)"
  using assms by (auto simp: Cons_eq_append_conv)

lemma retry_loop_counts:
  "retry_loop sess op rs c = (ex, c', evs) \<Longrightarrow>
     rollbacks evs = sleeps evs \<and>
     (ex = Exhausted \<longrightarrow> invocations evs = length rs \<and> sleeps evs = length rs) \<and>
     (ex \<noteq> Exhausted \<longrightarrow> invocations evs = sleeps evs + 1 \<and> invocations evs \<le> length rs)"
proof (induction rs arbitrary: c evs)
  case Nil
  then show ?case by (auto simp add: invocations_def sleeps_def rollbacks_def)
next
  case (Cons r rs)
  from Cons.prems show ?case
  proof (cases rule: retry_loop_Cons_cases)
    case returned
    then show ?thesis by (simp add: invocations_def sleeps_def rollbacks_def)
  next
    case (conflict e c1 evs')
    from Cons.IH [OF conflict(3)] conflict(4) show ?thesis
      by (auto simp add: invocations_def sleeps_def rollbacks_def)
  next
    case (fatal e)
    then show ?thesis by (simp add: invocations_def sleeps_def rollbacks_def)
  qed
qed





lemma retry_loop_fatal_last:
  "retry_loop sess op rs c = (ex, c', evs) \<Longrightarrow> evs = pre @ OpCall j (Some e) # post \<Longrightarrow>
     \<not> is_SerializationError e \<Longrightarrow> post = [] \<and> ex = Raised e"
proof (induction rs arbitrary: c evs pre)
  case Nil
  then show ?case by simp
next
  case (Cons r rs)
  from Cons.prems(1) show ?case
  proof (cases rule: retry_loop_Cons_cases)
    case returned
    with Cons.prems(2) show ?thesis by (cases pre) auto
  next
    case (conflict e1 c1 evs')
    with Cons.prems(2) have "OpCall r (Some e1) # Rollback # Sleep r # evs' = pre @ OpCall j (Some e) # post"
      by simp
    from segment_split [OF this] conflict(2) Cons.prems(3)
    obtain pre2 where "evs' = pre2 @ OpCall j (Some e) # post"
      by auto
    from Cons.IH [OF conflict(3) this Cons.prems(3)] show ?thesis .
  next
    case (fatal e1)
    with Cons.prems(2) show ?thesis by (cases pre) auto
  qed
qed

lemma retry_loop_success_last:
  "retry_loop sess op rs c = (ex, c', evs) \<Longrightarrow> evs = pre @ OpCall j None # post \<Longrightarrow>
     post = [] \<and> ex = Returned"
proof (induction rs arbitrary: c evs pre)
  case Nil
  then show ?case by simp
next
  case (Cons r rs)
  from Cons.prems(1) show ?case
  proof (cases rule: retry_loop_Cons_cases)
    case returned
    with Cons.prems(2) show ?thesis by (cases pre) auto
  next
    case (conflict e1 c1 evs')
    with Cons.prems(2) have "OpCall r (Some e1) # Rollback # Sleep r # evs' = pre @ OpCall j None # post"
      by simp
    from segment_split [OF this] obtain pre2 where "evs' = pre2 @ OpCall j None # post"
      by auto
    from Cons.IH [OF conflict(3) this] show ?thesis .
  next
    case (fatal e1)
    with Cons.prems(2) show ?thesis by (cases pre) auto
  qed
qed


lemma retry_loop_attempts:
  "retry_loop sess op rs c = (ex, c', evs) \<Longrightarrow> attempts evs = take (invocations evs) rs"
proof (induction rs arbitrary: c evs)
  case Nil
  then show ?case by (auto simp add: invocations_def)
next
  case (Cons r rs)
  from Cons.prems(1) show ?case
  proof (cases rule: retry_loop_Cons_cases)
    case returned
    then show ?thesis by (simp add: invocations_def)
  next
    case (conflict e1 c1 evs')
    from Cons.IH [OF conflict(3)] conflict(4) show ?thesis
      by (simp add: invocations_def)
  next
    case (fatal e1)
    then show ?thesis by (simp add: invocations_def)
  qed
qed


section \<open>The whole run\<close>

lemma run_transaction_cases:
  obtains ex c1 evs fin where
    "retry_loop sess op [1..max_retries] (tx_enter sess c) = (ex, c1, evs)"
    "events (run_transaction sess op max_retries c) = TxEnter # evs @ [fin]"
    "fin = (if ex = Returned then TxCommit else TxAbort)"
    "outcome (run_transaction sess op max_retries c) =
       (case ex of Returned \<Rightarrow> Inr () | Raised e \<Rightarrow> Inl e | Exhausted \<Rightarrow> Inl (exhausted max_retries))"
    "invocations (events (run_transaction sess op max_retries c)) = invocations evs"
    "sleeps (events (run_transaction sess op max_retries c)) = sleeps evs"
    "rollbacks (events (run_transaction sess op max_retries c)) = rollbacks evs"
    "conflicts (events (run_transaction sess op max_retries c)) = conflicts evs"
proof -
  obtain ex c1 evs where l: "retry_loop sess op [1..max_retries] (tx_enter sess c) = (ex, c1, evs)"
    by (cases "retry_loop sess op [1..max_retries] (tx_enter sess c)") auto
  have e: "events (run_transaction sess op max_retries c) =
       TxEnter # evs @ [if ex = Returned then TxCommit else TxAbort]"
    using l by (cases ex) (simp_all add: run_transaction_def events_def)
  show thesis
  proof (rule that [OF l e refl])
    show "invocations (events (run_transaction sess op max_retries c)) = invocations evs"
      "sleeps (events (run_transaction sess op max_retries c)) = sleeps evs"
      "rollbacks (events (run_transaction sess op max_retries c)) = rollbacks evs"
      "conflicts (events (run_transaction sess op max_retries c)) = conflicts evs"
      by (simp_all add: e invocations_def sleeps_def rollbacks_def conflicts_def)
    show "outcome (run_transaction sess op max_retries c) =
       (case ex of Returned \<Rightarrow> Inr () | Raised e \<Rightarrow> Inl e | Exhausted \<Rightarrow> Inl (exhausted max_retries))"
      using l by (cases ex) (simp_all add: run_transaction_def outcome_def)
  qed
qed




lemma attempts_append: "attempts (xs @ ys) = attempts xs @ attempts ys"
  by (induction xs rule: attempts.induct) simp_all

lemma scope_split:
  assumes "TxEnter # evs @ [fin] = pre @ x # post"
    and "fin = (if b then TxCommit else TxAbort)"
    and "x = Rollback \<or> is_OpCall x"
  shows "\<exists>pre1 post1. pre = TxEnter # pre1 \<and> post = post1 @ [fin] \<and> evs = pre1 @ x # post1"
proof (cases pre)
  case Nil
  with assms(1,3) show ?thesis by auto
next
  case (Cons y pre1)
  with assms(1) have y: "y = TxEnter" and r: "evs @ [fin] = pre1 @ x # post" by simp_all
  show ?thesis
  proof (cases post rule: rev_cases)
    case Nil
    with r have "x = fin" by simp
    with assms(2,3) show ?thesis by (auto split: if_splits)
  next
    case (snoc post1 z)
    with r have "evs @ [fin] = (pre1 @ x # post1) @ [z]" by simp
    then have "evs = pre1 @ x # post1" "z = fin" by simp_all
    with Cons y snoc show ?thesis by simp
  qed
qed



section \<open>The printed integer determines the integer\<close>







section \<open>The end-to-end scenarios\<close>



lemma scenario_conflict_then:
  "run_transaction null_session (conflict_then 2 (OtherException ''constraint violation'')) 5 () =
     (Inl (OtherException ''constraint violation''), (),
      [TxEnter, OpCall 1 (Some conflict), Rollback, Sleep 1,
       OpCall 2 (Some (OtherException ''constraint violation'')), TxAbort])"
  by (simp add: run_transaction_def upto.simps [of 1] conflict_then_def null_session_def conflict_def)

section \<open>Every attempt meets a conflict\<close>




section \<open>A fatal error\<close>

text \<open>
  C2. If in a run the unit of work raises on attempt \<open>j\<close> an error \<open>e\<close> that is no
  serialization error, the run stops there: the only event after that invocation is the
  exit of the transaction scope with the exception, so there is no further invocation,
  no rollback call and no sleep for this failure; \<open>e\<close> itself is what the call raises;
  the unit of work was invoked \<open>j\<close> times in all, and the \<open>j - 1\<close> sleeps are those of the
  earlier attempts.
\<close>

theorem fatal_error_stops_run:
  assumes "events (run_transaction sess op max_retries c) = pre @ OpCall j (Some e) # post"
    and "\<not> is_SerializationError e"
  shows "post = [TxAbort]
       \<and> outcome (run_transaction sess op max_retries c) = Inl e
       \<and> invocations (events (run_transaction sess op max_retries c)) = nat j
       \<and> sleeps (events (run_transaction sess op max_retries c)) = nat j - 1"
proof -
  obtain ex c1 evs fin where
    l: "retry_loop sess op [1..max_retries] (tx_enter sess c) = (ex, c1, evs)" and
    e: "events (run_transaction sess op max_retries c) = TxEnter # evs @ [fin]" and
    fin: "fin = (if ex = Returned then TxCommit else TxAbort)" and
    out: "outcome (run_transaction sess op max_retries c) =
       (case ex of Returned \<Rightarrow> Inr () | Raised e \<Rightarrow> Inl e | Exhausted \<Rightarrow> Inl (exhausted max_retries))" and
    inv: "invocations (events (run_transaction sess op max_retries c)) = invocations evs" and
    sl: "sleeps (events (run_transaction sess op max_retries c)) = sleeps evs"
    by (rule run_transaction_cases)
  from e assms(1) have "TxEnter # evs @ [fin] = pre @ OpCall j (Some e) # post" by simp
  from scope_split [OF this fin] obtain pre1 post1 where
    post: "post = post1 @ [fin]" and evs: "evs = pre1 @ OpCall j (Some e) # post1"
    by auto
  from retry_loop_fatal_last [OF l evs assms(2)] have p1: "post1 = []" and ex: "ex = Raised e"
    by simp_all
  let ?n = "invocations evs"
  from retry_loop_counts [OF l] ex have cnt: "?n = sleeps evs + 1" "?n \<le> length [1..max_retries]"
    by simp_all
  from retry_loop_attempts [OF l] evs p1
  have "take ?n [1..max_retries] = attempts pre1 @ [j]" by (simp add: attempts_append)
  then have "last (take ?n [1..max_retries]) = j" by simp
  moreover from cnt have "last (take ?n [1..max_retries]) = [1..max_retries] ! (?n - 1)"
    by (simp add: last_conv_nth min_absorb2)
  moreover from cnt have "[1..max_retries] ! (?n - 1) = 1 + int (?n - 1)"
    by (intro nth_upto) simp
  ultimately have "j = int ?n" using cnt(1) by simp
  then have "?n = nat j" by simp
  with cnt(1) have "sleeps evs = nat j - 1" by simp
  with out ex post p1 fin inv sl \<open>?n = nat j\<close> show ?thesis
    by simp
qed

theorem fatal_error_stops_run_witness:
  "events (run_transaction null_session (conflict_then 2 (OtherException ''constraint violation'')) 5 ())
     = [TxEnter, OpCall 1 (Some conflict), Rollback, Sleep 1]
         @ OpCall 2 (Some (OtherException ''constraint violation'')) # [TxAbort]
   \<and> \<not> is_SerializationError (OtherException ''constraint violation'')
   \<and> outcome (run_transaction null_session (conflict_then 2 (OtherException ''constraint violation'')) 5 ())
       = Inl (OtherException ''constraint violation'')
   \<and> invocations (events (run_transaction null_session
         (conflict_then 2 (OtherException ''constraint violation'')) 5 ())) = 2
   \<and> sleeps (events (run_transaction null_session
         (conflict_then 2 (OtherException ''constraint violation'')) 5 ())) = 1"
proof -
  have h1: "events (run_transaction null_session (conflict_then 2 (OtherException ''constraint violation'')) 5 ())
     = [TxEnter, OpCall 1 (Some conflict), Rollback, Sleep 1]
         @ OpCall 2 (Some (OtherException ''constraint violation'')) # [TxAbort]"
    by (simp add: scenario_conflict_then events_def)
  have h2: "\<not> is_SerializationError (OtherException ''constraint violation'')" by simp
  from fatal_error_stops_run [OF h1 h2] h1 h2 show ?thesis by simp
qed

section \<open>Success after conflicts\<close>



section \<open>What the caller sees\<close>



section \<open>The error after the last attempt\<close>



section \<open>Rollback on a conflict\<close>



section \<open>One transaction scope\<close>



section \<open>A retry ceiling below one\<close>

text \<open>
  C9. For every \<open>max_retries \<le> 0\<close> the unit of work is never invoked, nothing sleeps,
  \<^verbatim>\<open>conn.rollback()\<close> is not called, and the call raises the \<^verbatim>\<open>ValueError\<close> whose message
  holds the decimal form of that \<open>max_retries\<close>. The only events are the entry of the
  transaction scope and its exit with the exception.
\<close>

theorem run_transaction_no_attempts:
  assumes "max_retries \<le> 0"
  shows "outcome (run_transaction sess op max_retries c) =
           Inl (ValueError (''transaction did not succeed after '' @ str_int max_retries @ '' retries''))
         \<and> events (run_transaction sess op max_retries c) = [TxEnter, TxAbort]
         \<and> invocations (events (run_transaction sess op max_retries c)) = 0
         \<and> sleeps (events (run_transaction sess op max_retries c)) = 0
         \<and> rollbacks (events (run_transaction sess op max_retries c)) = 0"
proof -
  from assms have "[1..max_retries] = []" by simp
  then have "run_transaction sess op max_retries c =
               (Inl (exhausted max_retries), tx_abort sess (tx_enter sess c), [TxEnter, TxAbort])"
    by (simp add: run_transaction_def)
  then show ?thesis
    by (simp add: outcome_def events_def exhausted_def invocations_def sleeps_def rollbacks_def)
qed

theorem run_transaction_no_attempts_witness:
  "(- 1 :: int) \<le> 0
   \<and> outcome (run_transaction null_session always_conflict (- 1) ()) =
        Inl (ValueError ''transaction did not succeed after -1 retries'')
   \<and> events (run_transaction null_session always_conflict (- 1) ()) = [TxEnter, TxAbort]"
proof -
  have h: "(- 1 :: int) \<le> 0" by simp
  have s: "str_int (- 1) = ''-1''"
    by (simp add: str_int_def digits.simps digit_char_def)
  from run_transaction_no_attempts [OF h, of null_session always_conflict "()"] s
  show ?thesis by simp
qed

section \<open>Insufficient funds\<close>

text \<open>
  C10. If the row fetched for \<open>frm\<close> holds a balance \<open>b\<close> with \<open>b < amount\<close>,
  \<^verbatim>\<open>transfer_funds\<close> raises the \<^verbatim>\<open>RuntimeError\<close> of line 46; the only statement issued is
  the \<^verbatim>\<open>SELECT\<close>, neither \<^verbatim>\<open>UPDATE\<close> is, and the balances are as before the call.
\<close>

theorem transfer_funds_insufficient:
  assumes "accounts c frm = Some (Some b)" and "b < amount"
  shows "transfer_funds c frm to amount =
           (Some (RuntimeError (insufficient_funds frm b amount)),
            c\<lparr>issued := issued c @ [Select_balance frm]\<rparr>)
       \<and> accounts (snd (transfer_funds c frm to amount)) = accounts c
       \<and> issued (snd (transfer_funds c frm to amount)) = issued c @ [Select_balance frm]"
  using assms by (simp add: transfer_funds_def fetchrow_def)

theorem transfer_funds_insufficient_witness:
  "accounts demo_conn ''a2'' = Some (Some 250) \<and> (250::int) < 300
   \<and> transfer_funds demo_conn ''a2'' ''a1'' 300 =
       (Some (RuntimeError ''insufficient funds in a2: have <Record balance=250>, need 300''),
        demo_conn\<lparr>issued := [Select_balance ''a2'']\<rparr>)
   \<and> accounts (snd (transfer_funds demo_conn ''a2'' ''a1'' 300)) = accounts demo_conn"
proof -
  have h1: "accounts demo_conn ''a2'' = Some (Some 250)" by (simp add: demo_conn_def)
  have h2: "(250::int) < 300" by simp
  have m: "insufficient_funds ''a2'' 250 300 = ''insufficient funds in a2: have <Record balance=250>, need 300''"
    by (simp add: insufficient_funds_def str_int_def digits.simps digit_char_def)
  have i: "issued demo_conn = []" by (simp add: demo_conn_def)
  from transfer_funds_insufficient [OF h1 h2, of "''a1''"] h1 h2 m i show ?thesis by simp
qed

end
